theory Spec2Isabelle
  imports Complex_Main "HOL-Library.Log_Nat"
begin

section \<open>The email verification code lifecycle of the Sefr API\<close>

text \<open>
  The development embeds the verification code logic of \<^verbatim>\<open>api/models.py\<close>,
  \<^verbatim>\<open>api/utils.py\<close>, \<^verbatim>\<open>api/views.py\<close> and \<^verbatim>\<open>api/verification_email.py\<close>.

  Conventions of the embedding:
  \<^item> a timestamp is an \<open>int\<close> counting microseconds, the resolution of Python's
    \<^verbatim>\<open>datetime\<close>; the difference of two timestamps is a \<^verbatim>\<open>timedelta\<close>, and
    \<^verbatim>\<open>total_seconds()\<close> is that number of microseconds divided by \<open>10\<^sup>6\<close> and
    rounded to the nearest double, which is then compared with the timeout exactly, as
    Python compares a float with an integer;
  \<^item> one request reads the clock once: every \<^verbatim>\<open>timezone.now()\<close> of a request is the
    same instant \<open>now\<close>;
  \<^item> a nullable column is an \<open>option\<close>;
  \<^item> the settings module is not part of the sources, so both settings the code reads
    with \<^verbatim>\<open>getattr(settings, name, default)\<close> are fields of a record, \<open>None\<close>
    when the attribute is not defined;
  \<^item> the random generator is a parameter: the sequence of values that the calls of
    \<^verbatim>\<open>random.random()\<close> (inside \<^verbatim>\<open>random.choices\<close>) or of
    \<^verbatim>\<open>random.randint(0, 9)\<close> return.
\<close>

subsection \<open>Settings\<close>

record settings =
  VERIFICATION_CODE_LENGTH :: "int option"
  EMAIL_VERIFICATION_TIMEOUT :: "int option"

text \<open>\<^verbatim>\<open>getattr(settings, name, default)\<close>\<close>

definition getattr :: "'a option \<Rightarrow> 'a \<Rightarrow> 'a" where
  "getattr attr dflt = (case attr of None \<Rightarrow> dflt | Some v \<Rightarrow> v)"

subsection \<open>The user model (\<^verbatim>\<open>api/models.py\<close>)\<close>

type_synonym timestamp = int

record user =
  username :: string
  email :: string
  updated_at :: timestamp
  is_email_verified :: bool
  verification_code :: "string option"
  verification_code_created :: "timestamp option"

text \<open>
  \<^verbatim>\<open>User.save\<close>: an empty username is replaced by the email, then the row is
  written; \<^verbatim>\<open>auto_now\<close> stamps \<open>updated_at\<close>. The value returned is the object
  after the call, which is also the stored row.
\<close>

definition save :: "timestamp \<Rightarrow> user \<Rightarrow> user" where
  "save now u =
     (let u1 = (if username u = [] \<and> email u \<noteq> [] then u\<lparr>username := email u\<rparr> else u)
      in u1\<lparr>updated_at := now\<rparr>)"

definition set_verification_code :: "timestamp \<Rightarrow> string \<Rightarrow> user \<Rightarrow> user" where
  "set_verification_code now c u =
     save now (u\<lparr>verification_code := Some c, verification_code_created := Some now\<rparr>)"

definition clear_verification_code :: "timestamp \<Rightarrow> user \<Rightarrow> user" where
  "clear_verification_code now u =
     save now (u\<lparr>verification_code := None, verification_code_created := None\<rparr>)"

subsection \<open>\<^verbatim>\<open>timedelta.total_seconds\<close>\<close>

text \<open>
  \<^verbatim>\<open>total_seconds()\<close> is the true division of two Python integers, the microseconds
  of the difference by \<open>10\<^sup>6\<close>; its result is the double nearest to the quotient,
  a tie going to the even significand. A double with a significand of 53 bits is
  \<open>m * 2\<^sup>s\<close> with \<open>2\<^sup>5\<^sup>2 \<le> m \<le> 2\<^sup>5\<^sup>3\<close>; the values met here are far
  from the overflow and underflow of the exponent, which is therefore not bounded.
\<close>

definition round_half_even :: "rat \<Rightarrow> int" where
  "round_half_even x =
     (let f = \<lfloor>x\<rfloor>; r = x - of_int f
      in if r < 1 / 2 then f else if 1 / 2 < r then f + 1 else if even f then f else f + 1)"

text \<open>\<^verbatim>\<open>a / b\<close> for Python integers \<open>a\<close> and \<open>b > 0\<close>.\<close>

definition true_divide :: "int \<Rightarrow> int \<Rightarrow> rat" where
  "true_divide a b =
     (if a = 0 then 0
      else
        (let x = of_int \<bar>a\<bar> / of_int b;
             d = bitlen \<bar>a\<bar> - bitlen b;
             e = (if power_int 2 d \<le> x then d else d - 1);
             m = round_half_even (x / power_int 2 (e - 52))
         in of_int (sgn a) * (of_int m * power_int 2 (e - 52))))"

text \<open>
  A \<^verbatim>\<open>timedelta\<close> holds at most 999999999 days, 23:59:59.999999, that is
  86399999999999999999 microseconds, and the difference of two \<^verbatim>\<open>datetime\<close>
  values is far below that. Beyond that bound there is no \<^verbatim>\<open>timedelta\<close> to
  convert; the function is the exact quotient there, to be total on \<open>int\<close>.
\<close>

definition total_seconds :: "int \<Rightarrow> rat" where
  "total_seconds us =
     (if \<bar>us\<bar> \<le> 86399999999999999999 then true_divide us 1000000
      else of_int us / 1000000)"

text \<open>
  Python's truth value of the two columns: \<^verbatim>\<open>not self.verification_code\<close> holds for
  \<^verbatim>\<open>None\<close> and for the empty string; a \<^verbatim>\<open>datetime\<close> is always true, so
  \<^verbatim>\<open>not self.verification_code_created\<close> holds for \<^verbatim>\<open>None\<close> only.
\<close>

definition truthy_str :: "string option \<Rightarrow> bool" where
  "truthy_str s = (case s of None \<Rightarrow> False | Some v \<Rightarrow> v \<noteq> [])"

definition truthy_time :: "timestamp option \<Rightarrow> bool" where
  "truthy_time t = (case t of None \<Rightarrow> False | Some _ \<Rightarrow> True)"

definition is_verification_code_valid :: "settings \<Rightarrow> timestamp \<Rightarrow> user \<Rightarrow> string \<Rightarrow> bool" where
  "is_verification_code_valid cfg now u c =
     (if \<not> truthy_str (verification_code u) \<or> \<not> truthy_time (verification_code_created u)
      then False
      else
        (let timeout = getattr (EMAIL_VERIFICATION_TIMEOUT cfg) 3600;
             is_expired = (total_seconds (now - the (verification_code_created u)) > of_int timeout)
         in \<not> is_expired \<and> verification_code u = Some c))"

text \<open>\<^verbatim>\<open>User.verify_code\<close> delegates.\<close>

definition verify_code_method :: "settings \<Rightarrow> timestamp \<Rightarrow> user \<Rightarrow> string \<Rightarrow> bool" where
  "verify_code_method cfg now u c = is_verification_code_valid cfg now u c"

subsection \<open>Code generation (\<^verbatim>\<open>api/utils.py\<close>)\<close>

text \<open>\<^verbatim>\<open>string.digits\<close>\<close>

definition digits :: string where
  "digits = ''0123456789''"

text \<open>
  \<^verbatim>\<open>random.choices(population, k=k)\<close> draws \<open>k\<close> times: each draw reads
  \<^verbatim>\<open>random()\<close>, a value \<open>r\<close> with \<open>0 \<le> r < 1\<close>, and takes
  \<^verbatim>\<open>population[floor(r * n)]\<close>. A negative \<open>k\<close> draws nothing.
\<close>

definition choices :: "(nat \<Rightarrow> rat) \<Rightarrow> 'a list \<Rightarrow> int \<Rightarrow> 'a list" where
  "choices rnd population k =
     map (\<lambda>i. population ! nat \<lfloor>rnd i * of_nat (length population)\<rfloor>) [0..<nat k]"

definition generate_verification_code :: "settings \<Rightarrow> (nat \<Rightarrow> rat) \<Rightarrow> int option \<Rightarrow> string" where
  "generate_verification_code cfg rnd len =
     (let len' = (case len of None \<Rightarrow> getattr (VERIFICATION_CODE_LENGTH cfg) 6
                                 | Some l \<Rightarrow> l)
      in choices rnd digits len')"

text \<open>
  Issuing, as \<^verbatim>\<open>register_view\<close> and \<^verbatim>\<open>resend_verification\<close> do it:
  \<^verbatim>\<open>code = generate_verification_code(); user.set_verification_code(code)\<close>. The
  result is the code handed to the mailer and the user after the call.
\<close>

definition issue :: "settings \<Rightarrow> (nat \<Rightarrow> rat) \<Rightarrow> timestamp \<Rightarrow> int option \<Rightarrow> user \<Rightarrow> string \<times> user" where
  "issue cfg rnd now len u =
     (let code = generate_verification_code cfg rnd len
      in (code, set_verification_code now code u))"

text \<open>
  \<^verbatim>\<open>str(n)\<close> of an integer, needed by \<^verbatim>\<open>User.generate_verification_code\<close>.
\<close>

function str_nat :: "nat \<Rightarrow> string" where
  "str_nat n = (if n < 10 then [digits ! n] else str_nat (n div 10) @ [digits ! (n mod 10)])"
  by pat_completeness auto
termination
  by (relation "measure id") auto

definition str :: "int \<Rightarrow> string" where
  "str i = (if i < 0 then CHR ''-'' # str_nat (nat (- i)) else str_nat (nat i))"

text \<open>
  \<^verbatim>\<open>User.generate_verification_code\<close> (\<^verbatim>\<open>api/models.py\<close>): six calls of
  \<^verbatim>\<open>random.randint(0, 9)\<close>, each printed with \<^verbatim>\<open>str\<close>; \<open>randint i\<close> is the
  value of the \<open>i\<close>-th call.
\<close>

definition User_generate_verification_code :: "(nat \<Rightarrow> int) \<Rightarrow> timestamp \<Rightarrow> user \<Rightarrow> string \<times> user" where
  "User_generate_verification_code randint now u =
     (let code = concat (map (\<lambda>i. str (randint i)) [0..<6])
      in (code, save now (u\<lparr>verification_code := Some code,
                              verification_code_created := Some now\<rparr>)))"

subsection \<open>Account creation (\<^verbatim>\<open>UserManager.create_user\<close>)\<close>

text \<open>
  The registration serializer passes the email, the password and the names; the three
  verification columns take the defaults of the model. The password hash and the names
  play no part below and are left out; \<^verbatim>\<open>normalize_email\<close> belongs to the
  framework and is a parameter. \<^verbatim>\<open>register_view\<close> is this creation followed by
  \<open>issue\<close>.
\<close>

datatype error = ValueError

definition create_user :: "(string \<Rightarrow> string) \<Rightarrow> timestamp \<Rightarrow> string \<Rightarrow> string \<Rightarrow> error + user" where
  "create_user normalize_email now email' username' =
     (if email' = [] then Inl ValueError
      else Inr (save now \<lparr>username = username', email = normalize_email email',
                          updated_at = now, is_email_verified = False,
                          verification_code = None, verification_code_created = None\<rparr>))"

subsection \<open>The verification endpoints of \<^verbatim>\<open>api/views.py\<close>\<close>

text \<open>
  A response keeps what tells the outcomes apart: whether the text of the body is under
  the key \<^verbatim>\<open>'error'\<close> or \<^verbatim>\<open>'message'\<close>, the value under \<^verbatim>\<open>'code'\<close>, and
  the HTTP status. The texts themselves, the tokens and the serialised user are left out.
\<close>

datatype body_key = Error_key | Message_key

datatype response = Response (body_text: body_key) (body_code: string) (status: nat)

text \<open>
  \<^verbatim>\<open>verify_email\<close> from the point where the user has been fetched (lines 592 to 618):
  the consumption of a candidate code by a user.
\<close>

definition verify_email_user :: "settings \<Rightarrow> timestamp \<Rightarrow> user \<Rightarrow> string \<Rightarrow> response \<times> user" where
  "verify_email_user cfg now u c =
     (if is_email_verified u then (Response Message_key ''already_verified'' 200, u)
      else if \<not> is_verification_code_valid cfg now u c
      then (Response Error_key ''invalid_code'' 400, u)
      else
        (let u1 = u\<lparr>is_email_verified := True\<rparr>;
             u2 = clear_verification_code now u1;
             u3 = save now u2
         in (Response Message_key ''success'' 200, u3)))"

text \<open>
  The whole endpoint: both fields of the request must be present and not empty, and the
  user is looked up by email. The table of users is a map from the (unique) email to the
  row; the row is written back under the same email, which no path changes.
\<close>

definition verify_email :: "settings \<Rightarrow> timestamp \<Rightarrow> (string \<rightharpoonup> user) \<Rightarrow> string option \<Rightarrow> string option
    \<Rightarrow> response \<times> (string \<rightharpoonup> user)" where
  "verify_email cfg now users email' code' =
     (if \<not> truthy_str email' \<or> \<not> truthy_str code'
      then (Response Error_key ''missing_fields'' 400, users)
      else
        (case users (the email') of
           None \<Rightarrow> (Response Error_key ''user_not_found'' 404, users)
         | Some u \<Rightarrow>
             (let (r, u') = verify_email_user cfg now u (the code')
              in (r, users(the email' \<mapsto> u')))))"

text \<open>
  \<^verbatim>\<open>resend_verification\<close> from the point where the user has been fetched; \<open>mail_ok\<close>
  says whether \<^verbatim>\<open>send_verification_email\<close> returned without raising.
\<close>

definition resend_verification_user :: "settings \<Rightarrow> (nat \<Rightarrow> rat) \<Rightarrow> bool \<Rightarrow> timestamp \<Rightarrow> user \<Rightarrow> response \<times> user" where
  "resend_verification_user cfg rnd mail_ok now u =
     (if is_email_verified u then (Response Message_key ''already_verified'' 200, u)
      else
        (let (code, u') = issue cfg rnd now None u
         in if \<not> mail_ok then (Response Error_key ''email_sending_failed'' 500, u')
            else (Response Message_key ''success'' 200, u')))"

text \<open>
  The two development endpoints. \<^verbatim>\<open>debug_get_verification_code\<close> issues a code only
  when none is stored; \<^verbatim>\<open>debug_direct_verify\<close> verifies without a code. Only their
  effect on the user is kept.
\<close>

definition debug_get_verification_code_user :: "settings \<Rightarrow> (nat \<Rightarrow> rat) \<Rightarrow> timestamp \<Rightarrow> user \<Rightarrow> user" where
  "debug_get_verification_code_user cfg rnd now u =
     (if is_email_verified u then u
      else if \<not> truthy_str (verification_code u) \<or> \<not> truthy_time (verification_code_created u)
      then snd (issue cfg rnd now None u)
      else u)"

definition debug_direct_verify_user :: "timestamp \<Rightarrow> user \<Rightarrow> user" where
  "debug_direct_verify_user now u =
     (if is_email_verified u then u
      else save now (clear_verification_code now (u\<lparr>is_email_verified := True\<rparr>)))"

subsection \<open>The endpoints of \<^verbatim>\<open>api/verification_email.py\<close>\<close>

datatype json_response = JsonResponse (success: bool) (message: string) (json_status: nat)

text \<open>\<^verbatim>\<open>verify_code\<close> from the point where the user has been fetched (lines 275 to 296).\<close>

definition verify_code_user :: "settings \<Rightarrow> timestamp \<Rightarrow> user \<Rightarrow> string \<Rightarrow> json_response \<times> user" where
  "verify_code_user cfg now u c =
     (if is_email_verified u then (JsonResponse True ''Email already verified'' 200, u)
      else
        (let is_valid = verify_code_method cfg now u c
         in if is_valid
            then (JsonResponse True ''Email verified successfully'' 200,
                  save now (u\<lparr>is_email_verified := True, verification_code := None,
                               verification_code_created := None\<rparr>))
            else (JsonResponse False ''Invalid or expired verification code'' 400, u)))"

text \<open>
  \<^verbatim>\<open>send_verification_email\<close> of the same file, up to the point where the code has
  been generated (lines 39 to 43).
\<close>

definition send_verification_email_user :: "(nat \<Rightarrow> int) \<Rightarrow> timestamp \<Rightarrow> user \<Rightarrow> user" where
  "send_verification_email_user randint now u =
     (if is_email_verified u then u
      else snd (User_generate_verification_code randint now u))"

text \<open>The management command \<^verbatim>\<open>verify_user\<close>.\<close>

definition verify_user_command :: "timestamp \<Rightarrow> user \<Rightarrow> user" where
  "verify_user_command now u =
     (if is_email_verified u then u
      else save now (u\<lparr>is_email_verified := True, verification_code := None,
                        verification_code_created := None\<rparr>))"

subsection \<open>The lifecycle as a sequence of operations on one user\<close>

datatype op =
    Issue "nat \<Rightarrow> rat" timestamp "int option"
  | Generate "nat \<Rightarrow> int" timestamp
  | IsValid timestamp string
  | VerifyEmail timestamp string
  | VerifyCode timestamp string
  | Resend "nat \<Rightarrow> rat" bool timestamp
  | SendCode "nat \<Rightarrow> int" timestamp
  | DebugGetCode "nat \<Rightarrow> rat" timestamp
  | DebugDirectVerify timestamp
  | VerifyUserCommand timestamp

fun step :: "settings \<Rightarrow> op \<Rightarrow> user \<Rightarrow> user" where
  "step cfg (Issue rnd now len) u = snd (issue cfg rnd now len u)"
| "step cfg (Generate randint now) u = snd (User_generate_verification_code randint now u)"
| "step cfg (IsValid now c) u = (let b = is_verification_code_valid cfg now u c in u)"
| "step cfg (VerifyEmail now c) u = snd (verify_email_user cfg now u c)"
| "step cfg (VerifyCode now c) u = snd (verify_code_user cfg now u c)"
| "step cfg (Resend rnd mail_ok now) u = snd (resend_verification_user cfg rnd mail_ok now u)"
| "step cfg (SendCode randint now) u = send_verification_email_user randint now u"
| "step cfg (DebugGetCode rnd now) u = debug_get_verification_code_user cfg rnd now u"
| "step cfg (DebugDirectVerify now) u = debug_direct_verify_user now u"
| "step cfg (VerifyUserCommand now) u = verify_user_command now u"

fun run :: "settings \<Rightarrow> op list \<Rightarrow> user \<Rightarrow> user" where
  "run cfg [] u = u"
| "run cfg (x # xs) u = run cfg xs (step cfg x u)"

text \<open>The invariant of the two code columns: both are set or both are absent.\<close>

definition code_inv :: "user \<Rightarrow> bool" where
  "code_inv u = ((verification_code u = None) = (verification_code_created u = None))"

subsection \<open>Concrete data for the examples\<close>

text \<open>
  The settings with neither attribute defined (code length 6, timeout 3600 seconds),
  settings with the code length 0, an unverified user without a code, a generator whose six draws select \<open>042917\<close>, and a
  second one that always draws the digit 5.
\<close>

definition default_settings :: settings where
  "default_settings = \<lparr>VERIFICATION_CODE_LENGTH = None, EMAIL_VERIFICATION_TIMEOUT = None\<rparr>"

definition zero_length_settings :: settings where
  "zero_length_settings = \<lparr>VERIFICATION_CODE_LENGTH = Some 0, EMAIL_VERIFICATION_TIMEOUT = None\<rparr>"

definition alice :: user where
  "alice = \<lparr>username = ''alice'', email = ''alice@example.com'', updated_at = 0,
            is_email_verified = False, verification_code = None,
            verification_code_created = None\<rparr>"

definition seeded :: "nat \<Rightarrow> rat" where
  "seeded i = (if i = 1 then 4 / 10 else if i = 2 then 2 / 10 else if i = 3 then 9 / 10
               else if i = 4 then 1 / 10 else if i = 5 then 7 / 10 else 0)"

definition fives :: "nat \<Rightarrow> rat" where
  "fives i = 1 / 2"

subsection \<open>Facts about \<open>total_seconds\<close>\<close>

lemma bitlen_rat_bounds:
  assumes "0 < P"
  shows "power_int (2::rat) (bitlen P - 1) \<le> of_int P" and "of_int P < power_int (2::rat) (bitlen P)"
proof -
  from assms have b: "2 ^ nat (bitlen P - 1) \<le> P" "P < 2 ^ nat (bitlen P)"
    using bitlen_bounds [of P] by simp_all
  from assms have p: "1 \<le> bitlen P"
    using bitlen_eq_zero_iff [of P] bitlen_nonneg [of P] by linarith
  from b(1) have "(of_int (2 ^ nat (bitlen P - 1)) :: rat) \<le> of_int P"
    by (simp only: of_int_le_iff)
  with p show "power_int (2::rat) (bitlen P - 1) \<le> of_int P"
    by (simp add: power_int_def)
  from b(2) have "(of_int P :: rat) < of_int (2 ^ nat (bitlen P))"
    by (simp only: of_int_less_iff)
  with p show "of_int P < power_int (2::rat) (bitlen P)"
    by (simp add: power_int_def)
qed

lemma exponent_bounds:
  assumes "0 < P" and "0 < Q"
    and "(x::rat) = of_int P / of_int Q"
    and "d = bitlen P - bitlen Q"
    and "e = (if power_int 2 d \<le> x then d else d - 1)"
  shows "power_int 2 e \<le> x \<and> x < power_int 2 (e + 1)"
proof -
  have q: "(0::rat) < of_int Q"
    using assms(2) by simp
  have up: "x < power_int 2 (d + 1)"
  proof -
    have "of_int P < power_int (2::rat) (bitlen P)"
      using assms(1) by (rule bitlen_rat_bounds)
    moreover have "power_int (2::rat) (bitlen Q - 1) \<le> of_int Q"
      using assms(2) by (rule bitlen_rat_bounds)
    moreover have "(0::rat) < power_int 2 (bitlen Q - 1)"
      by simp
    ultimately have "of_int P / of_int Q < power_int (2::rat) (bitlen P) / power_int 2 (bitlen Q - 1)"
      using assms(1) by (intro frac_less) simp_all
    also have "\<dots> = power_int 2 (bitlen P - (bitlen Q - 1))"
      by (simp add: power_int_diff)
    finally show ?thesis
      by (simp add: assms(3,4) algebra_simps)
  qed
  have lo: "power_int 2 (d - 1) \<le> x"
  proof -
    have "power_int (2::rat) (bitlen P - 1) \<le> of_int P"
      using assms(1) by (rule bitlen_rat_bounds)
    moreover have "of_int Q \<le> power_int (2::rat) (bitlen Q)"
      using bitlen_rat_bounds(2) [OF assms(2)] by simp
    ultimately have "power_int (2::rat) (bitlen P - 1) / power_int 2 (bitlen Q) \<le> of_int P / of_int Q"
      using q assms(1) by (intro frac_le) simp_all
    moreover have "power_int (2::rat) (bitlen P - 1) / power_int 2 (bitlen Q) =
        power_int 2 (bitlen P - 1 - bitlen Q)"
      by (simp add: power_int_diff)
    ultimately show ?thesis
      by (simp add: assms(3,4) algebra_simps)
  qed
  show ?thesis
  proof (cases "power_int 2 d \<le> x")
    case True
    with up assms(5) show ?thesis
      by simp
  next
    case False
    with lo assms(5) show ?thesis
      by simp
  qed
qed

lemma exponent_unique:
  assumes "power_int (2::rat) e \<le> x" and "x < power_int 2 (e + 1)"
    and "power_int (2::rat) k \<le> x" and "x < power_int 2 (k + 1)"
  shows "e = k"
proof (rule ccontr)
  assume "e \<noteq> k"
  then consider "e + 1 \<le> k" | "k + 1 \<le> e"
    by linarith
  then show False
  proof cases
    case 1
    then have "power_int (2::rat) (e + 1) \<le> power_int 2 k"
      by (intro power_int_increasing) simp_all
    with assms(2,3) show False
      by simp
  next
    case 2
    then have "power_int (2::rat) (k + 1) \<le> power_int 2 e"
      by (intro power_int_increasing) simp_all
    with assms(1,4) show False
      by simp
  qed
qed

lemma round_half_even_of_int: "round_half_even (of_int n) = n"
  by (simp add: round_half_even_def)

lemma true_divide_whole:
  assumes "0 < Q" and "\<bar>T\<bar> < 2 ^ 53"
  shows "true_divide (T * Q) Q = of_int T"
proof (cases "T = 0")
  case True
  then show ?thesis
    by (simp add: true_divide_def)
next
  case False
  define P where "P = \<bar>T * Q\<bar>"
  define x :: rat where "x = of_int P / of_int Q"
  define d where "d = bitlen P - bitlen Q"
  define e where "e = (if power_int 2 d \<le> x then d else d - 1)"
  define k where "k = bitlen \<bar>T\<bar> - 1"
  from False assms(1) have P: "0 < P"
    by (simp add: P_def)
  from assms(1) have xT: "x = of_int \<bar>T\<bar>"
    by (simp add: x_def P_def abs_mult)
  from P assms(1) x_def d_def e_def have eb: "power_int 2 e \<le> x \<and> x < power_int 2 (e + 1)"
    by (rule exponent_bounds)
  from False have T: "0 < \<bar>T\<bar>"
    by simp
  from bitlen_rat_bounds [OF T] xT have kb: "power_int 2 k \<le> x" "x < power_int 2 (k + 1)"
    by (simp_all add: k_def)
  from eb kb have ek: "e = k"
    using exponent_unique [of e x k] by blast
  have k0: "0 \<le> k"
    using T bitlen_eq_zero_iff [of "\<bar>T\<bar>"] bitlen_nonneg [of "\<bar>T\<bar>"] by (simp add: k_def)
  have k52: "k \<le> 52"
  proof (rule ccontr)
    assume "\<not> k \<le> 52"
    then have "53 \<le> k"
      by simp
    then have "power_int (2::rat) 53 \<le> power_int 2 k"
      by (intro power_int_increasing) simp_all
    with kb(1) xT have "(2::rat) ^ 53 \<le> of_int \<bar>T\<bar>"
      by simp
    then have "(of_int (2 ^ 53) :: rat) \<le> of_int \<bar>T\<bar>"
      by simp
    then have "(2::int) ^ 53 \<le> \<bar>T\<bar>"
      by (simp only: of_int_le_iff)
    with assms(2) show False
      by simp
  qed
  have "x / power_int 2 (k - 52) = x * power_int 2 (52 - k)"
    by (simp add: power_int_diff field_simps)
  also have "\<dots> = of_int (\<bar>T\<bar> * 2 ^ nat (52 - k))"
    using k52 by (simp add: xT power_int_def)
  finally have m: "round_half_even (x / power_int 2 (k - 52)) = \<bar>T\<bar> * 2 ^ nat (52 - k)"
    by (simp only: round_half_even_of_int)
  have p: "(2::rat) ^ nat (52 - k) = power_int 2 (52 - k)"
    using k52 by (simp add: power_int_def)
  have "power_int (2::rat) (52 - k) * power_int 2 (k - 52) = 1"
    by (simp add: power_int_diff)
  with p have q: "(2::rat) ^ nat (52 - k) * power_int 2 (k - 52) = 1"
    by simp
  have "(of_int (\<bar>T\<bar> * 2 ^ nat (52 - k)) :: rat) * power_int 2 (k - 52) =
      of_int \<bar>T\<bar> * ((2::rat) ^ nat (52 - k) * power_int 2 (k - 52))"
    by (simp add: mult.assoc)
  with q have inv: "(of_int (\<bar>T\<bar> * 2 ^ nat (52 - k)) :: rat) * power_int 2 (k - 52) = of_int \<bar>T\<bar>"
    by simp
  have s: "sgn (T * Q) = sgn T"
    using assms(1) by (simp add: sgn_mult)
  have "true_divide (T * Q) Q =
      of_int (sgn (T * Q)) * (of_int (round_half_even (x / power_int 2 (e - 52))) * power_int 2 (e - 52))"
    using False assms(1)
    by (simp add: true_divide_def Let_def x_def P_def d_def e_def)
  also have "\<dots> = of_int (sgn T) * of_int \<bar>T\<bar>"
    by (simp only: ek m inv s)
  also have "\<dots> = of_int (sgn T * \<bar>T\<bar>)"
    by (simp only: of_int_mult)
  also have "\<dots> = of_int T"
    by (simp only: mult_sgn_abs)
  finally show ?thesis .
qed

lemma total_seconds_whole: "total_seconds (T * 1000000) = of_int T"
proof (cases "\<bar>T * 1000000\<bar> \<le> 86399999999999999999")
  case True
  then have "\<bar>T\<bar> < 2 ^ 53"
    by (simp add: abs_mult)
  with true_divide_whole [of 1000000 T] True show ?thesis
    by (simp add: total_seconds_def)
next
  case False
  then show ?thesis
    by (simp add: total_seconds_def)
qed

text \<open>Some values of \<open>total_seconds\<close>, evaluated.\<close>

lemma total_seconds_0: "total_seconds 0 = 0"
  by (simp add: total_seconds_def true_divide_def)

lemma total_seconds_5: "total_seconds 5 \<le> 3600"
  by code_simp

lemma total_seconds_10: "total_seconds 10 \<le> 3600"
  by code_simp

lemma total_seconds_past_hour: "3600 < total_seconds 3600000001"
  by code_simp

lemma not_expired_at_issue:
  "0 \<le> timeoutSeconds \<Longrightarrow> \<not> of_int timeoutSeconds < total_seconds (t0 - t0)"
  by (simp add: total_seconds_0)

text \<open>
  Where the rounding shows: one microsecond past a timeout of \<open>2\<^sup>3\<^sup>4\<close> seconds the
  double is the timeout itself, and the code is not yet expired.
\<close>

lemma total_seconds_rounds: "total_seconds 17179869184000001 = 17179869184"
  by code_simp

subsection \<open>Basic facts\<close>

lemma length_choices: "length (choices rnd population k) = nat k"
  by (simp add: choices_def)

lemma length_generate_verification_code:
  "length (generate_verification_code cfg rnd len) =
     nat (case len of None \<Rightarrow> getattr (VERIFICATION_CODE_LENGTH cfg) 6 | Some l \<Rightarrow> l)"
  by (simp add: generate_verification_code_def length_choices)

lemma save_fields:
  "is_email_verified (save now u) = is_email_verified u"
  "verification_code (save now u) = verification_code u"
  "verification_code_created (save now u) = verification_code_created u"
  "email (save now u) = email u"
  "updated_at (save now u) = now"
  by (simp_all add: save_def Let_def)

lemma set_verification_code_fields:
  "verification_code (set_verification_code now c u) = Some c"
  "verification_code_created (set_verification_code now c u) = Some now"
  "is_email_verified (set_verification_code now c u) = is_email_verified u"
  by (simp_all add: set_verification_code_def save_fields)

lemma clear_verification_code_fields:
  "verification_code (clear_verification_code now u) = None"
  "verification_code_created (clear_verification_code now u) = None"
  "is_email_verified (clear_verification_code now u) = is_email_verified u"
  by (simp_all add: clear_verification_code_def save_fields)

text \<open>The validity check, spelled out on a user whose two columns are set.\<close>

lemma is_verification_code_valid_iff:
  "is_verification_code_valid cfg now u c \<longleftrightarrow>
     (\<exists>t. verification_code u = Some c \<and> c \<noteq> [] \<and> verification_code_created u = Some t \<and>
          \<not> of_int (getattr (EMAIL_VERIFICATION_TIMEOUT cfg) 3600) < total_seconds (now - t))"
  by (cases "verification_code u"; cases "verification_code_created u")
     (auto simp: is_verification_code_valid_def truthy_str_def truthy_time_def Let_def)

lemma issue_fields:
  "fst (issue cfg rnd now len u) = generate_verification_code cfg rnd len"
  "verification_code (snd (issue cfg rnd now len u)) = Some (generate_verification_code cfg rnd len)"
  "verification_code_created (snd (issue cfg rnd now len u)) = Some now"
  "is_email_verified (snd (issue cfg rnd now len u)) = is_email_verified u"
  by (simp_all add: issue_def Let_def set_verification_code_fields)

lemma User_generate_fields:
  "verification_code (snd (User_generate_verification_code ri now u)) =
     Some (fst (User_generate_verification_code ri now u))"
  "verification_code_created (snd (User_generate_verification_code ri now u)) = Some now"
  "is_email_verified (snd (User_generate_verification_code ri now u)) = is_email_verified u"
  by (simp_all add: User_generate_verification_code_def Let_def save_fields)

lemma code_inv_save: "code_inv (save now u) = code_inv u"
  by (simp add: code_inv_def save_fields)

lemma verify_email_user_verified:
  "is_email_verified u \<Longrightarrow> verify_email_user cfg now u c = (Response Message_key ''already_verified'' 200, u)"
  by (simp add: verify_email_user_def)

lemma verify_email_user_invalid:
  "\<not> is_email_verified u \<Longrightarrow> \<not> is_verification_code_valid cfg now u c \<Longrightarrow>
   verify_email_user cfg now u c = (Response Error_key ''invalid_code'' 400, u)"
  by (simp add: verify_email_user_def)

lemma verify_email_user_valid:
  "\<not> is_email_verified u \<Longrightarrow> is_verification_code_valid cfg now u c \<Longrightarrow>
   verify_email_user cfg now u c =
     (Response Message_key ''success'' 200,
      save now (clear_verification_code now (u\<lparr>is_email_verified := True\<rparr>)))"
  by (simp add: verify_email_user_def Let_def)

lemma verify_email_user_snd:
  "is_email_verified (snd (verify_email_user cfg now u c)) =
     (is_email_verified u \<or> is_verification_code_valid cfg now u c)"
  "code_inv u \<Longrightarrow> code_inv (snd (verify_email_user cfg now u c))"
  by (auto simp: verify_email_user_def Let_def save_fields clear_verification_code_fields code_inv_def)

lemma verify_code_user_snd:
  "is_email_verified (snd (verify_code_user cfg now u c)) =
     (is_email_verified u \<or> is_verification_code_valid cfg now u c)"
  "code_inv u \<Longrightarrow> code_inv (snd (verify_code_user cfg now u c))"
  by (auto simp: verify_code_user_def verify_code_method_def Let_def save_fields code_inv_def)

lemma resend_snd:
  "is_email_verified (snd (resend_verification_user cfg rnd ok now u)) = is_email_verified u"
  "code_inv u \<Longrightarrow> code_inv (snd (resend_verification_user cfg rnd ok now u))"
  by (auto simp: resend_verification_user_def Let_def split_beta issue_fields code_inv_def)

lemma code_inv_set: "verification_code v = Some c \<Longrightarrow> verification_code_created v = Some t \<Longrightarrow> code_inv v"
  by (simp add: code_inv_def)

lemma code_inv_cleared: "verification_code v = None \<Longrightarrow> verification_code_created v = None \<Longrightarrow> code_inv v"
  by (simp add: code_inv_def)

lemma issue_code_inv: "code_inv (snd (issue cfg rnd now len u))"
  by (rule code_inv_set) (simp_all add: issue_fields)

lemma User_generate_code_inv: "code_inv (snd (User_generate_verification_code ri now u))"
  by (rule code_inv_set) (simp_all add: User_generate_fields)

lemma send_code_inv: "code_inv u \<Longrightarrow> code_inv (send_verification_email_user ri now u)"
  by (simp add: send_verification_email_user_def User_generate_code_inv)

lemma debug_get_code_inv: "code_inv u \<Longrightarrow> code_inv (debug_get_verification_code_user cfg rnd now u)"
  by (simp add: debug_get_verification_code_user_def issue_code_inv)

lemma debug_direct_code_inv: "code_inv u \<Longrightarrow> code_inv (debug_direct_verify_user now u)"
  by (simp add: debug_direct_verify_user_def code_inv_save)
     (simp add: code_inv_def clear_verification_code_fields)

lemma verify_user_command_code_inv: "code_inv u \<Longrightarrow> code_inv (verify_user_command now u)"
  by (simp add: verify_user_command_def code_inv_save) (simp add: code_inv_def)

lemma step_code_inv: "code_inv u \<Longrightarrow> code_inv (step cfg x u)"
  by (cases x)
     (simp_all add: issue_code_inv User_generate_code_inv verify_email_user_snd
        verify_code_user_snd resend_snd send_code_inv debug_get_code_inv
        debug_direct_code_inv verify_user_command_code_inv)

lemma step_verified: "is_email_verified u \<Longrightarrow> is_email_verified (step cfg x u)"
  by (cases x)
     (auto simp: verify_email_user_snd verify_code_user_snd resend_snd
        send_verification_email_user_def debug_get_verification_code_user_def
        debug_direct_verify_user_def verify_user_command_def
        issue_fields User_generate_fields save_fields)

lemma run_append: "run cfg (xs @ ys) u = run cfg ys (run cfg xs u)"
  by (induction xs arbitrary: u) simp_all

lemma run_code_inv: "code_inv u \<Longrightarrow> code_inv (run cfg xs u)"
  by (induction xs arbitrary: u) (simp_all add: step_code_inv)

lemma run_verified: "is_email_verified u \<Longrightarrow> is_email_verified (run cfg xs u)"
  by (induction xs arbitrary: u) (simp_all add: step_verified)

lemma create_user_code_inv: "create_user nrm now e un = Inr u \<Longrightarrow> code_inv u \<and> \<not> is_email_verified u"
  by (auto simp: create_user_def code_inv_def save_fields split: if_splits)

subsection \<open>The examples evaluated\<close>

lemma seeded_code: "generate_verification_code default_settings seeded None = ''042917''"
  by (simp add: generate_verification_code_def default_settings_def getattr_def choices_def
      digits_def seeded_def upt_rec)

lemma fives_code: "generate_verification_code default_settings fives None = ''555555''"
  by (simp add: generate_verification_code_def default_settings_def getattr_def choices_def
      digits_def fives_def upt_rec)

lemma empty_code: "generate_verification_code cfg rnd (Some 0) = []"
  by (simp add: generate_verification_code_def choices_def)

lemma default_timeout: "getattr (EMAIL_VERIFICATION_TIMEOUT default_settings) 3600 = 3600"
  by (simp add: default_settings_def getattr_def)

lemma default_length: "getattr (VERIFICATION_CODE_LENGTH default_settings) 6 = 6"
  by (simp add: default_settings_def getattr_def)

lemma issue_alice:
  "issue default_settings seeded t0 None alice =
     (''042917'', alice\<lparr>updated_at := t0, verification_code := Some ''042917'',
                        verification_code_created := Some t0\<rparr>)"
  by (simp add: issue_def Let_def seeded_code set_verification_code_def save_def alice_def)

text \<open>A draw in the unit interval selects an element of the population.\<close>

lemma choices_subset:
  assumes "\<forall>i. 0 \<le> rnd i \<and> rnd i < 1" and "population \<noteq> []"
  shows "set (choices rnd population k) \<subseteq> set population"
proof
  fix x
  assume "x \<in> set (choices rnd population k)"
  then obtain i where x: "x = population ! nat \<lfloor>rnd i * of_nat (length population)\<rfloor>"
    and i: "i < nat k"
    by (auto simp: choices_def)
  from assms have r: "0 \<le> rnd i" "rnd i < 1"
    by simp_all
  show "x \<in> set population"
  proof -
    from assms(2) have pos: "0 < (of_nat (length population) :: rat)"
      by simp
    with r(2) have "rnd i * of_nat (length population) < of_nat (length population)"
      by simp
    then have "\<lfloor>rnd i * of_nat (length population)\<rfloor> < int (length population)"
      by (simp add: floor_less_iff)
    moreover from r(1) have "0 \<le> \<lfloor>rnd i * of_nat (length population)\<rfloor>"
      by simp
    ultimately have "nat \<lfloor>rnd i * of_nat (length population)\<rfloor> < length population"
      by (simp add: nat_less_iff)
    with x show ?thesis
      by simp
  qed
qed

text \<open>
  The endpoint \<^verbatim>\<open>verify_email\<close> around the consumption: with both fields present and
  the user found, the response is that of the consumption and the row is replaced by the
  user it returns; otherwise the table is left as it is.
\<close>

lemma verify_email_found:
  assumes "email' \<noteq> []" and "c \<noteq> []" and "users email' = Some u"
  shows "verify_email cfg now users (Some email') (Some c) =
     (fst (verify_email_user cfg now u c), users(email' \<mapsto> snd (verify_email_user cfg now u c)))"
  using assms by (simp add: verify_email_def truthy_str_def split_beta)

lemma verify_email_missing_fields:
  "verify_email cfg now users email' (Some []) = (Response Error_key ''missing_fields'' 400, users)"
  by (simp add: verify_email_def truthy_str_def)

lemma verify_email_not_found:
  assumes "email' \<noteq> []" and "c \<noteq> []" and "users email' = None"
  shows "verify_email cfg now users (Some email') (Some c) =
     (Response Error_key ''user_not_found'' 404, users)"
  using assms by (simp add: verify_email_def truthy_str_def)

text \<open>\<^verbatim>\<open>User.generate_verification_code\<close> returns six decimal digits.\<close>

lemma str_digit:
  assumes "0 \<le> i" and "i \<le> 9"
  shows "length (str i) = 1 \<and> set (str i) \<subseteq> set digits"
proof -
  from assms have n: "nat i < length digits"
    by (simp add: digits_def)
  from assms have "str i = [digits ! nat i]"
    by (simp add: str_def)
  with nth_mem [OF n] show ?thesis
    by simp
qed

lemma User_generate_verification_code_digits:
  assumes "\<forall>i. 0 \<le> randint i \<and> randint i \<le> 9"
  shows "length (fst (User_generate_verification_code randint now u)) = 6 \<and>
         set (fst (User_generate_verification_code randint now u)) \<subseteq> set digits"
proof -
  have "\<forall>i. length (str (randint i)) = 1 \<and> set (str (randint i)) \<subseteq> set digits"
    using assms str_digit by blast
  then show ?thesis
    by (simp add: User_generate_verification_code_def Let_def upt_rec)
qed

section \<open>The claims\<close>

text \<open>
  C1 (as amended). A user holds a freshly issued code \<open>c\<close> that is not the empty string,
  issued at \<open>t0\<close>, and the timeout is \<open>timeoutSeconds\<close>. Then the validity check of
  \<open>c\<close> succeeds at exactly \<open>t0 + timeoutSeconds\<close> and fails one second later: expiry
  is the strict comparison \<open>elapsed > timeoutSeconds\<close>.
\<close>

theorem valid_at_boundary:
  assumes "issue cfg rnd t0 len u = (c, u')"
    and "c \<noteq> []"
    and "timeoutSeconds = getattr (EMAIL_VERIFICATION_TIMEOUT cfg) 3600"
  shows "is_verification_code_valid cfg (t0 + timeoutSeconds * 1000000) u' c \<and>
         \<not> is_verification_code_valid cfg (t0 + (timeoutSeconds + 1) * 1000000) u' c"
proof -
  from assms(1) have "c = fst (issue cfg rnd t0 len u)" and "u' = snd (issue cfg rnd t0 len u)"
    by simp_all
  then have f: "verification_code u' = Some c" "verification_code_created u' = Some t0"
    by (simp_all add: issue_fields)
  have "total_seconds (timeoutSeconds * 1000000) = of_int timeoutSeconds"
    by (rule total_seconds_whole)
  then have a: "\<not> of_int timeoutSeconds < total_seconds (t0 + timeoutSeconds * 1000000 - t0)"
    by simp
  have "total_seconds ((timeoutSeconds + 1) * 1000000) = of_int (timeoutSeconds + 1)"
    by (rule total_seconds_whole)
  then have b: "of_int timeoutSeconds < total_seconds (t0 + (timeoutSeconds + 1) * 1000000 - t0)"
    by simp
  from f assms(2) a b show ?thesis
    unfolding is_verification_code_valid_iff assms(3) [symmetric] by simp
qed

theorem valid_at_boundary_witness:
  "issue default_settings seeded 0 None alice =
     (''042917'', alice\<lparr>updated_at := 0, verification_code := Some ''042917'',
                        verification_code_created := Some 0\<rparr>) \<and>
   is_verification_code_valid default_settings 3600000000
     (alice\<lparr>updated_at := 0, verification_code := Some ''042917'',
            verification_code_created := Some 0\<rparr>) ''042917'' \<and>
   \<not> is_verification_code_valid default_settings 3601000000
     (alice\<lparr>updated_at := 0, verification_code := Some ''042917'',
            verification_code_created := Some 0\<rparr>) ''042917''"
  using valid_at_boundary [OF issue_alice [of 0], of 3600]
  by (simp add: default_timeout issue_alice)

text \<open>
  C1 as stated fails for the empty code that \<open>issue\<close> with length 0 stores: the check
  treats an empty stored code as no code, so it fails at the boundary instant too.
\<close>

theorem valid_at_boundary_counterexample:
  "fst (issue default_settings seeded 0 (Some 0) alice) = [] \<and>
   \<not> is_verification_code_valid default_settings (0 + 3600 * 1000000)
       (snd (issue default_settings seeded 0 (Some 0) alice))
       (fst (issue default_settings seeded 0 (Some 0) alice))"
  by (simp add: is_verification_code_valid_iff issue_fields empty_code)

text \<open>
  C2 (as amended). An unverified user is issued a code \<open>c\<close> at \<open>t0\<close>; the code is
  not the empty string and is consumed at an instant \<open>now\<close> at which it has not
  expired (at \<open>t0\<close> itself that is so whenever the timeout is not negative). The
  answer is the success response, the user is verified, and the code and its timestamp
  are cleared; consuming \<open>c\<close> again, at any later instant, answers
  \<open>already_verified\<close>.
\<close>

theorem consume_after_issue:
  assumes "\<not> is_email_verified u"
    and "issue cfg rnd t0 None u = (c, u1)"
    and "c \<noteq> []"
    and "\<not> of_int (getattr (EMAIL_VERIFICATION_TIMEOUT cfg) 3600) < total_seconds (now - t0)"
    and "verify_email_user cfg now u1 c = (r, u2)"
  shows "r = Response Message_key ''success'' 200 \<and>
         is_email_verified u2 \<and> verification_code u2 = None \<and>
         verification_code_created u2 = None \<and>
         verify_email_user cfg later u2 c = (Response Message_key ''already_verified'' 200, u2)"
proof -
  from assms(2) have "c = fst (issue cfg rnd t0 None u)"
    and u1: "u1 = snd (issue cfg rnd t0 None u)"
    by simp_all
  then have c: "c = generate_verification_code cfg rnd None"
    by (simp add: issue_fields)
  from u1 c have f: "verification_code u1 = Some c" "verification_code_created u1 = Some t0"
    "\<not> is_email_verified u1"
    using assms(1) by (simp_all add: issue_fields)
  with assms(3,4) have "is_verification_code_valid cfg now u1 c"
    by (simp add: is_verification_code_valid_iff)
  with f(3) assms(5) have r: "r = Response Message_key ''success'' 200"
    and u2: "u2 = save now (clear_verification_code now (u1\<lparr>is_email_verified := True\<rparr>))"
    by (simp_all add: verify_email_user_valid)
  from u2 have v: "is_email_verified u2" "verification_code u2 = None"
    "verification_code_created u2 = None"
    by (simp_all add: save_fields clear_verification_code_fields)
  from v(1) have "verify_email_user cfg later u2 c = (Response Message_key ''already_verified'' 200, u2)"
    by (rule verify_email_user_verified)
  with r v show ?thesis
    by simp
qed

theorem consume_after_issue_witness:
  "\<not> is_email_verified alice \<and>
   verify_email_user default_settings 0
     (alice\<lparr>updated_at := 0, verification_code := Some ''042917'',
            verification_code_created := Some 0\<rparr>) ''042917'' =
     (Response Message_key ''success'' 200, alice\<lparr>is_email_verified := True\<rparr>) \<and>
   verify_email_user default_settings 7 (alice\<lparr>is_email_verified := True\<rparr>) ''042917'' =
     (Response Message_key ''already_verified'' 200, alice\<lparr>is_email_verified := True\<rparr>)"
proof -
  have a: "\<not> is_email_verified alice"
    by (simp add: alice_def)
  have b: "''042917'' \<noteq> []"
    by simp
  have c: "\<not> of_int (getattr (EMAIL_VERIFICATION_TIMEOUT default_settings) 3600)
      < total_seconds (0 - 0)"
    by (simp add: default_timeout total_seconds_0)
  have d: "verify_email_user default_settings 0
     (alice\<lparr>updated_at := 0, verification_code := Some ''042917'',
            verification_code_created := Some 0\<rparr>) ''042917'' =
     (Response Message_key ''success'' 200, alice\<lparr>is_email_verified := True\<rparr>)"
    by (simp add: verify_email_user_def is_verification_code_valid_iff default_timeout
        total_seconds_0 clear_verification_code_def save_def alice_def Let_def)
  from consume_after_issue [OF a issue_alice b c d, of 7] a d show ?thesis
    by simp
qed

text \<open>
  C2 as stated fails where the configured code length is 0: the issued code is the empty
  string, and consuming it at the instant of issue answers \<open>invalid_code\<close> and
  leaves the user unverified.
\<close>

theorem consume_after_issue_counterexample:
  "\<not> is_email_verified alice \<and>
   fst (issue zero_length_settings seeded 0 None alice) = [] \<and>
   verify_email_user zero_length_settings 0
       (snd (issue zero_length_settings seeded 0 None alice))
       (fst (issue zero_length_settings seeded 0 None alice)) =
     (Response Error_key ''invalid_code'' 400,
      snd (issue zero_length_settings seeded 0 None alice)) \<and>
   \<not> is_email_verified (snd (issue zero_length_settings seeded 0 None alice))"
proof -
  have e: "generate_verification_code zero_length_settings seeded None = []"
    by (simp add: generate_verification_code_def zero_length_settings_def getattr_def
        choices_def)
  have a: "\<not> is_email_verified alice"
    by (simp add: alice_def)
  then have u: "\<not> is_email_verified (snd (issue zero_length_settings seeded 0 None alice))"
    by (simp add: issue_fields)
  have "\<not> is_verification_code_valid zero_length_settings 0
      (snd (issue zero_length_settings seeded 0 None alice)) []"
    by (simp add: is_verification_code_valid_iff)
  with u have "verify_email_user zero_length_settings 0
      (snd (issue zero_length_settings seeded 0 None alice)) [] =
     (Response Error_key ''invalid_code'' 400,
      snd (issue zero_length_settings seeded 0 None alice))"
    by (rule verify_email_user_invalid)
  with a u e show ?thesis
    by (simp add: issue_fields)
qed

text \<open>
  C3. The user is not verified, and the candidate differs from the stored code or the
  stored code has expired: the seconds elapsed since it was issued, as
  \<^verbatim>\<open>total_seconds()\<close> gives them, exceed the timeout. Then the consumption answers \<open>invalid_code\<close> with status 400
  and the user is returned as it was: no field changes, \<open>is_email_verified\<close> stays
  false, and the code and its timestamp stay as stored.
\<close>

theorem consume_failure_untouched:
  assumes "\<not> is_email_verified u"
    and "verification_code u \<noteq> Some c \<or>
         (\<exists>t. verification_code_created u = Some t \<and>
              of_int (getattr (EMAIL_VERIFICATION_TIMEOUT cfg) 3600) < total_seconds (now - t))"
  shows "verify_email_user cfg now u c = (Response Error_key ''invalid_code'' 400, u)"
proof -
  from assms(2) have "\<not> is_verification_code_valid cfg now u c"
    by (auto simp: is_verification_code_valid_iff)
  with assms(1) show ?thesis
    by (rule verify_email_user_invalid)
qed

theorem consume_failure_untouched_witness:
  "verify_email_user default_settings 10
     (alice\<lparr>verification_code := Some ''042917'', verification_code_created := Some 0\<rparr>)
     ''042918'' =
     (Response Error_key ''invalid_code'' 400,
      alice\<lparr>verification_code := Some ''042917'', verification_code_created := Some 0\<rparr>) \<and>
   verify_email_user default_settings 3600000001
     (alice\<lparr>verification_code := Some ''042917'', verification_code_created := Some 0\<rparr>)
     ''042917'' =
     (Response Error_key ''invalid_code'' 400,
      alice\<lparr>verification_code := Some ''042917'', verification_code_created := Some 0\<rparr>)"
  using consume_failure_untouched [of
      "alice\<lparr>verification_code := Some ''042917'', verification_code_created := Some 0\<rparr>"
      "''042918''" default_settings 10]
    consume_failure_untouched [of
      "alice\<lparr>verification_code := Some ''042917'', verification_code_created := Some 0\<rparr>"
      "''042917''" default_settings 3600000001]
  by (simp add: alice_def default_timeout total_seconds_past_hour)

text \<open>
  C4. The user is verified. Then the consumption of any candidate answers
  \<open>already_verified\<close> and returns the user as it was, in \<^verbatim>\<open>verify_email\<close> and in
  \<^verbatim>\<open>verify_code\<close>; the answer is a success report: status 200, the text under the
  key \<^verbatim>\<open>'message'\<close>, and \<^verbatim>\<open>success\<close> true.
\<close>

theorem consume_already_verified:
  assumes "is_email_verified u"
  shows "verify_email_user cfg now u c = (Response Message_key ''already_verified'' 200, u) \<and>
         status (fst (verify_email_user cfg now u c)) = 200 \<and>
         body_text (fst (verify_email_user cfg now u c)) = Message_key \<and>
         verify_code_user cfg now u c = (JsonResponse True ''Email already verified'' 200, u) \<and>
         success (fst (verify_code_user cfg now u c))"
  using assms by (simp add: verify_email_user_def verify_code_user_def)

theorem consume_already_verified_witness:
  "is_email_verified (alice\<lparr>is_email_verified := True\<rparr>) \<and>
   verify_email_user default_settings 10 (alice\<lparr>is_email_verified := True\<rparr>) ''000000'' =
     (Response Message_key ''already_verified'' 200, alice\<lparr>is_email_verified := True\<rparr>) \<and>
   verify_code_user default_settings 10 (alice\<lparr>is_email_verified := True\<rparr>) ''000000'' =
     (JsonResponse True ''Email already verified'' 200, alice\<lparr>is_email_verified := True\<rparr>)"
  using consume_already_verified [of "alice\<lparr>is_email_verified := True\<rparr>" default_settings 10
      "''000000''"]
  by simp

text \<open>
  C5. For a length \<open>len \<ge> 0\<close> and a generator whose values lie in the unit interval,
  \<open>issue\<close> with that length returns a string of exactly \<open>len\<close> characters, each one
  of the ten decimal digits, and stores it; for \<open>len = 0\<close> the string is empty.
\<close>

theorem issue_length_digits:
  assumes "0 \<le> len"
    and "\<forall>i. 0 \<le> rnd i \<and> rnd i < 1"
    and "issue cfg rnd now (Some len) u = (c, u')"
  shows "int (length c) = len \<and> (\<forall>x \<in> set c. x \<in> set ''0123456789'') \<and>
         verification_code u' = Some c \<and> (len = 0 \<longrightarrow> c = [])"
proof -
  from assms(3) have "fst (issue cfg rnd now (Some len) u) = c"
    and u': "snd (issue cfg rnd now (Some len) u) = u'"
    by simp_all
  then have c: "choices rnd digits len = c"
    by (simp add: issue_fields generate_verification_code_def)
  from assms(1) have "int (length (choices rnd digits len)) = len"
    by (simp add: length_choices)
  with c have l: "int (length c) = len"
    by simp
  have "digits \<noteq> []"
    by (simp add: digits_def)
  with assms(2) have "set (choices rnd digits len) \<subseteq> set digits"
    by (rule choices_subset)
  with c have "set c \<subseteq> set digits"
    by simp
  then have d: "\<forall>x \<in> set c. x \<in> set ''0123456789''"
    unfolding digits_def by blast
  have "verification_code (snd (issue cfg rnd now (Some len) u)) = Some (choices rnd digits len)"
    by (simp add: issue_fields generate_verification_code_def)
  with u' c have s: "verification_code u' = Some c"
    by simp
  from l have e: "len = 0 \<longrightarrow> c = []"
    by auto
  from l d s e show ?thesis
    by blast
qed

theorem issue_length_digits_witness:
  "issue default_settings seeded 0 (Some 6) alice =
     (''042917'', alice\<lparr>updated_at := 0, verification_code := Some ''042917'',
                        verification_code_created := Some 0\<rparr>) \<and>
   int (length ''042917'') = 6 \<and> set ''042917'' \<subseteq> set ''0123456789''"
proof -
  have a: "(0::int) \<le> 6"
    by simp
  have b: "\<forall>i. 0 \<le> seeded i \<and> seeded i < 1"
    by (simp add: seeded_def)
  have c: "issue default_settings seeded 0 (Some 6) alice =
     (''042917'', alice\<lparr>updated_at := 0, verification_code := Some ''042917'',
                        verification_code_created := Some 0\<rparr>)"
    by (simp add: issue_def Let_def generate_verification_code_def choices_def digits_def
        seeded_def upt_rec set_verification_code_def save_def alice_def)
  from issue_length_digits [OF a b c] have "set ''042917'' \<subseteq> set ''0123456789''"
    by blast
  with c show ?thesis
    by simp
qed

text \<open>
  C6 (as amended). After two consecutive issues, the first returning \<open>c1\<close> and the
  second a different code \<open>c2\<close>, the validity check of \<open>c1\<close> fails at every instant.
\<close>

theorem reissue_invalidates_first:
  assumes "issue cfg rnd1 t0 len1 u = (c1, u1)"
    and "issue cfg rnd2 t1 len2 u1 = (c2, u2)"
    and "c1 \<noteq> c2"
  shows "\<not> is_verification_code_valid cfg now u2 c1"
proof -
  from assms(2) have "fst (issue cfg rnd2 t1 len2 u1) = c2"
    and "snd (issue cfg rnd2 t1 len2 u1) = u2"
    by simp_all
  then have "verification_code u2 = Some c2"
    by (auto simp: issue_fields)
  with assms(3) show ?thesis
    by (simp add: is_verification_code_valid_iff)
qed

theorem reissue_invalidates_first_witness:
  "''042917'' \<noteq> ''555555'' \<and>
   \<not> is_verification_code_valid default_settings 20
       (snd (issue default_settings fives 10 None
          (snd (issue default_settings seeded 0 None alice)))) ''042917''"
proof -
  have a: "issue default_settings seeded 0 None alice =
      (''042917'', snd (issue default_settings seeded 0 None alice))"
    by (simp add: issue_def Let_def seeded_code)
  have b: "issue default_settings fives 10 None (snd (issue default_settings seeded 0 None alice)) =
      (''555555'', snd (issue default_settings fives 10 None
          (snd (issue default_settings seeded 0 None alice))))"
    by (simp add: issue_def Let_def fives_code)
  have c: "''042917'' \<noteq> ''555555''"
    by simp
  from reissue_invalidates_first [OF a b c, of 20] c show ?thesis
    by simp
qed

text \<open>
  C6 as stated fails when the generator draws the same digits twice: the second issue
  stores the same code, and the first code is valid again.
\<close>

theorem reissue_invalidates_first_counterexample:
  "fst (issue default_settings seeded 0 None alice) = ''042917'' \<and>
   is_verification_code_valid default_settings 20
     (snd (issue default_settings seeded 10 None
        (snd (issue default_settings seeded 0 None alice))))
     (fst (issue default_settings seeded 0 None alice))"
  using total_seconds_10
  by (simp add: is_verification_code_valid_iff issue_fields seeded_code default_timeout)

text \<open>
  C7 (as amended). For a user to whom \<open>issue\<close> with length 0 has issued the empty
  code, the validity check fails for every candidate, the empty string included, at
  every instant: an empty stored code counts as no code.
\<close>

theorem empty_code_never_valid:
  assumes "issue cfg rnd t0 (Some 0) u = (c, u')"
  shows "c = [] \<and> \<not> is_verification_code_valid cfg now u' candidate"
proof -
  from assms have "fst (issue cfg rnd t0 (Some 0) u) = c"
    and "snd (issue cfg rnd t0 (Some 0) u) = u'"
    by simp_all
  then have "c = []" and "verification_code u' = Some []"
    by (auto simp: issue_fields empty_code)
  then show ?thesis
    by (simp add: is_verification_code_valid_iff)
qed

theorem empty_code_never_valid_witness:
  "issue default_settings fives 0 (Some 0) alice =
     ([], alice\<lparr>verification_code := Some [], verification_code_created := Some 0\<rparr>) \<and>
   \<not> is_verification_code_valid default_settings 5
       (alice\<lparr>verification_code := Some [], verification_code_created := Some 0\<rparr>) []"
proof -
  have a: "issue default_settings fives 0 (Some 0) alice =
     ([], alice\<lparr>verification_code := Some [], verification_code_created := Some 0\<rparr>)"
    by (simp add: issue_def Let_def empty_code set_verification_code_def save_def alice_def)
  from empty_code_never_valid [OF a, of 5 "[]"] a show ?thesis
    by simp
qed

text \<open>
  C7 as stated fails: ten microseconds after length 0 was issued, well within the
  timeout of 3600 seconds, the empty candidate is not valid.
\<close>

theorem empty_code_valid_counterexample:
  "fst (issue default_settings fives 0 (Some 0) alice) = [] \<and>
   verification_code_created (snd (issue default_settings fives 0 (Some 0) alice)) = Some 0 \<and>
   (10::int) - 0 \<le> getattr (EMAIL_VERIFICATION_TIMEOUT default_settings) 3600 * 1000000 \<and>
   \<not> is_verification_code_valid default_settings 10
       (snd (issue default_settings fives 0 (Some 0) alice)) []"
  by (simp add: is_verification_code_valid_iff issue_fields empty_code default_timeout)

text \<open>
  C8. The invariant that the code and its timestamp are both set or both absent holds
  for a newly created account and is preserved by every operation of the lifecycle
  (issuing, the validity check, both consumptions in all their outcomes, resending, the
  development endpoints and the management command), hence by every sequence of them.
\<close>

theorem code_inv_preserved:
  "(create_user nrm now e un = Inr v \<longrightarrow> code_inv v) \<and>
   (code_inv u \<longrightarrow> code_inv (step cfg x u)) \<and>
   (code_inv u \<longrightarrow> code_inv (run cfg xs u))"
  using create_user_code_inv [of nrm now e un v] step_code_inv [of u cfg x]
    run_code_inv [of u cfg xs]
  by blast

theorem code_inv_preserved_witness:
  "create_user (\<lambda>s. s) 0 ''alice@example.com'' ''alice'' = Inr alice \<and>
   code_inv alice \<and>
   code_inv (step default_settings (VerifyEmail 5 ''042917'') alice) \<and>
   code_inv (run default_settings
      [Issue seeded 0 None, IsValid 3 ''042917'', VerifyEmail 5 ''000000'',
       VerifyEmail 6 ''042917''] alice)"
proof -
  have a: "create_user (\<lambda>s. s) 0 ''alice@example.com'' ''alice'' = Inr alice"
    by (simp add: create_user_def save_def alice_def)
  from code_inv_preserved [of "\<lambda>s. s" 0 "''alice@example.com''" "''alice''" alice alice
      default_settings "VerifyEmail 5 ''042917''"
      "[Issue seeded 0 None, IsValid 3 ''042917'', VerifyEmail 5 ''000000'',
        VerifyEmail 6 ''042917'']"] a
  show ?thesis
    by simp
qed

text \<open>
  C9. The verified flag is monotonic: if the user is verified after a sequence of
  lifecycle operations, the user is still verified after any further operations.
\<close>

theorem verified_monotonic:
  assumes "is_email_verified (run cfg xs u)"
  shows "is_email_verified (run cfg (xs @ ys) u)"
  using assms by (simp add: run_append run_verified)

theorem verified_monotonic_witness:
  "is_email_verified (run default_settings [Issue seeded 0 None, VerifyEmail 5 ''042917''] alice) \<and>
   is_email_verified (run default_settings
      ([Issue seeded 0 None, VerifyEmail 5 ''042917''] @
       [Resend fives True 9, Issue fives 10 None, VerifyCode 11 ''000000'',
        VerifyEmail 12 ''555555'', DebugDirectVerify 13]) alice)"
proof -
  have a: "is_email_verified
      (run default_settings [Issue seeded 0 None, VerifyEmail 5 ''042917''] alice)"
    using total_seconds_5
    by (simp add: verify_email_user_snd is_verification_code_valid_iff issue_fields
        seeded_code default_timeout)
  from a verified_monotonic [OF a, of "[Resend fives True 9, Issue fives 10 None,
      VerifyCode 11 ''000000'', VerifyEmail 12 ''555555'', DebugDirectVerify 13]"]
  show ?thesis
    by blast
qed

text \<open>
  C10. Two consumptions by unverified users, one failing because the candidate differs
  from the stored code and one failing because the matching code has expired (the
  seconds elapsed, as \<^verbatim>\<open>total_seconds()\<close> gives them, exceed the timeout), give
  the same response: \<open>invalid_code\<close> with status 400.
\<close>

theorem consume_failures_indistinguishable:
  assumes "\<not> is_email_verified u1"
    and "\<not> is_email_verified u2"
    and "verification_code u1 = Some c1"
    and "candidate1 \<noteq> c1"
    and "verification_code u2 = Some candidate2"
    and "verification_code_created u2 = Some t2"
    and "of_int (getattr (EMAIL_VERIFICATION_TIMEOUT cfg) 3600) < total_seconds (now2 - t2)"
  shows "fst (verify_email_user cfg now1 u1 candidate1) =
           fst (verify_email_user cfg now2 u2 candidate2) \<and>
         fst (verify_email_user cfg now1 u1 candidate1) = Response Error_key ''invalid_code'' 400"
proof -
  from assms(3,4) have "\<not> is_verification_code_valid cfg now1 u1 candidate1"
    by (auto simp: is_verification_code_valid_iff)
  with assms(1) have a: "verify_email_user cfg now1 u1 candidate1 =
      (Response Error_key ''invalid_code'' 400, u1)"
    by (rule verify_email_user_invalid)
  from assms(6,7) have "\<not> is_verification_code_valid cfg now2 u2 candidate2"
    by (auto simp: is_verification_code_valid_iff)
  with assms(2) have b: "verify_email_user cfg now2 u2 candidate2 =
      (Response Error_key ''invalid_code'' 400, u2)"
    by (rule verify_email_user_invalid)
  from a b show ?thesis
    by simp
qed

theorem consume_failures_indistinguishable_witness:
  "fst (verify_email_user default_settings 10
      (alice\<lparr>verification_code := Some ''042917'', verification_code_created := Some 0\<rparr>)
      ''042918'') =
   fst (verify_email_user default_settings 3600000001
      (alice\<lparr>verification_code := Some ''555555'', verification_code_created := Some 0\<rparr>)
      ''555555'') \<and>
   fst (verify_email_user default_settings 10
      (alice\<lparr>verification_code := Some ''042917'', verification_code_created := Some 0\<rparr>)
      ''042918'') = Response Error_key ''invalid_code'' 400"
proof -
  let ?u1 = "alice\<lparr>verification_code := Some ''042917'', verification_code_created := Some 0\<rparr>"
  let ?u2 = "alice\<lparr>verification_code := Some ''555555'', verification_code_created := Some 0\<rparr>"
  have a: "\<not> is_email_verified ?u1" and b: "\<not> is_email_verified ?u2"
    by (simp_all add: alice_def)
  have c: "verification_code ?u1 = Some ''042917''" and d: "''042918'' \<noteq> ''042917''"
    by simp_all
  have e: "verification_code ?u2 = Some ''555555''"
    and f: "verification_code_created ?u2 = Some 0"
    by simp_all
  have g: "of_int (getattr (EMAIL_VERIFICATION_TIMEOUT default_settings) 3600)
      < total_seconds (3600000001 - 0)"
    by (simp add: default_timeout total_seconds_past_hour)
  from consume_failures_indistinguishable [OF a b c d e f g, of 10] show ?thesis .
qed

end
